theory Spec2Isabelle
  imports Complex_Main "HOL-Library.AList"
begin

section \<open>AsyncAPNSClient (pyapns\_client/async\_client.py)\<close>

text \<open>
  A shallow embedding of the class \<^verbatim>\<open>AsyncAPNSClient\<close>. The attributes of the object
  and the history of its effects on the outside world form one record, passed through
  every method and returned updated. A method that can raise returns a sum whose left
  injection is the exception.

  Naming: Python's leading underscore is written \<open>p_\<close> (\<^verbatim>\<open>_push\<close> is \<open>p_push\<close>),
  \<^verbatim>\<open>__init__\<close> is \<open>init\<close>; everything else keeps its name.

  Left out: the calls to \<^verbatim>\<open>logger.debug\<close>, and with them
  \<^verbatim>\<open>time.perf_counter\<close>, whose readings are only logged. The coroutines are
  modelled as ordinary sequential calls.
\<close>

subsection \<open>Python values and exceptions\<close>

text \<open>The values \<^verbatim>\<open>json.loads\<close> can return, which are also the values of keyword arguments.\<close>

datatype py_value =
    PNone
  | PBool bool
  | PInt int
  | PFloat real
  | PStr string
  | PList "py_value list"
  | PDict "(string \<times> py_value) list"

text \<open>
  A class is its name together with the names of its proper ancestors;
  \<^verbatim>\<open>issubclass\<close> compares names.
\<close>

record py_class =
  cls_name :: string
  cls_bases :: "string list"

definition issubclass :: "py_class \<Rightarrow> string \<Rightarrow> bool" where
  "issubclass c n \<longleftrightarrow> n = cls_name c \<or> n \<in> set (cls_bases c)"

text \<open>
  An exception is an instance of a class of the \<^verbatim>\<open>exceptions\<close> module, with the
  keyword arguments it was constructed from, or one of the built-in errors that the
  statements of the source can raise.
\<close>

datatype py_exception =
    Raised py_class "(string \<times> py_value) list"
  | JSONDecodeError
  | KeyError string
  | TypeError
  | NotImplementedError string
  | ValueError string
  | OSError string

fun isinstance :: "py_exception \<Rightarrow> string \<Rightarrow> bool" where
  "isinstance (Raised c kw) n = issubclass c n"
| "isinstance _ n = False"

text \<open>Subscription \<^verbatim>\<open>d[k]\<close> with a string key: only a dict that has the key answers.\<close>

fun getitem :: "py_value \<Rightarrow> string \<Rightarrow> py_exception + py_value" where
  "getitem (PDict kvs) k = (case map_of kvs k of None \<Rightarrow> Inl (KeyError k) | Some v \<Rightarrow> Inr v)"
| "getitem _ k = Inl TypeError"

text \<open>Truth value of an optional string: \<^verbatim>\<open>None\<close> and the empty string are false.\<close>

fun truthy :: "string option \<Rightarrow> bool" where
  "truthy None = False"
| "truthy (Some v) = (v \<noteq> [])"

text \<open>\<^verbatim>\<open>str(x)\<close> of an optional string.\<close>

fun str :: "string option \<Rightarrow> string" where
  "str None = ''None''"
| "str (Some v) = v"

subsection \<open>The exceptions module\<close>

text \<open>
  The module \<^verbatim>\<open>pyapns_client/exceptions.py\<close> is not among the sources. The source
  names four of its classes; the classes named after reason strings are a parameter
  (\<open>reason_classes\<close> below), since that vocabulary is the remote service's. Every
  class of the module is taken to accept the keyword arguments that \<^verbatim>\<open>_push\<close>
  passes to it.
\<close>

text \<open>
  Modelled from the spec: the class \<^verbatim>\<open>APNSException\<close> of the missing module
  \<^verbatim>\<open>exceptions.py\<close>, the root of the family of failures that reach the caller
  (section 7).
\<close>

definition APNSException :: py_class where
  "APNSException = \<lparr>cls_name = ''APNSException'', cls_bases = [''Exception'']\<rparr>"

text \<open>
  Modelled from the spec: the class \<^verbatim>\<open>APNSServerException\<close> of the missing module
  \<^verbatim>\<open>exceptions.py\<close>, the category of server-side failures, which are retried
  (sections 4.4 and 7).
\<close>

definition APNSServerException :: py_class where
  "APNSServerException =
     \<lparr>cls_name = ''APNSServerException'', cls_bases = [''APNSException'', ''Exception'']\<rparr>"

text \<open>
  Modelled from the spec: the class \<^verbatim>\<open>APNSConnectionException\<close> of the missing
  module \<^verbatim>\<open>exceptions.py\<close>, the connectivity failure. Section 7 lists it as a
  category beside the server-side one, raised at once and not retried, so it is a member
  of the family and not a subclass of \<^verbatim>\<open>APNSServerException\<close>.
\<close>

definition APNSConnectionException :: py_class where
  "APNSConnectionException =
     \<lparr>cls_name = ''APNSConnectionException'', cls_bases = [''APNSException'', ''Exception'']\<rparr>"

text \<open>
  Modelled from the spec: the class \<^verbatim>\<open>UnregisteredException\<close> of the missing
  module \<^verbatim>\<open>exceptions.py\<close>, the failure for a device that is no longer
  registered, which is client-side (section 4.3, step 4).
\<close>

definition UnregisteredException :: py_class where
  "UnregisteredException =
     \<lparr>cls_name = ''UnregisteredException'', cls_bases = [''APNSException'', ''Exception'']\<rparr>"

subsection \<open>The outside world\<close>

record response =
  resp_status_code :: int
  resp_headers :: "(string \<times> string) list"
  resp_text :: string

datatype http_result = RequestError | Response response

record request =
  req_url :: string
  req_data :: string
  req_headers :: "(string \<times> string) list"

text \<open>
  What the client does to the world, in order: it creates a connection object, closes one,
  or posts a request on one. Connection objects are told apart by a number.
\<close>

datatype event = Created nat | Closed nat | Posted nat request

datatype verify = VerifyBool bool | VerifyPath string

record httpx_client =
  client_id :: nat
  client_auth :: bool
  client_cert :: "(string \<times> string option \<times> string option) option"
  client_verify :: verify
  client_http2 :: bool
  client_timeout :: real
  client_limits :: "nat \<times> nat"
  client_base_url :: string

text \<open>
  The collaborators the source calls but does not define: the attribute table of the
  exceptions module for the classes named after reasons, \<^verbatim>\<open>json.loads\<close> (\<open>None\<close> when
  it raises), the text an f-string gives a value that is not a string,
  \<^verbatim>\<open>jwt.encode\<close> (claims, key, algorithm, headers), the successive readings of
  \<^verbatim>\<open>time.time()\<close> and the successive results of the transport.
  Readings of the clock are real numbers: the rounding of floats is not modelled.
\<close>

record env =
  reason_classes :: "string \<Rightarrow> py_class option"
  json_loads :: "string \<Rightarrow> py_value option"
  format_value :: "py_value \<Rightarrow> string"
  jwt_encode :: "(string option \<times> real) \<Rightarrow> string \<Rightarrow> string \<Rightarrow> (string \<times> string option) \<Rightarrow> string"
  clock :: "nat \<Rightarrow> real"
  transport :: "nat \<Rightarrow> http_result"

text \<open>\<^verbatim>\<open>getattr(exceptions, name)\<close>; \<open>None\<close> stands for AttributeError.\<close>

definition getattr_exceptions :: "env \<Rightarrow> string \<Rightarrow> py_class option" where
  "getattr_exceptions e n =
     (if n = ''APNSException'' then Some APNSException
      else if n = ''APNSServerException'' then Some APNSServerException
      else if n = ''APNSConnectionException'' then Some APNSConnectionException
      else if n = ''UnregisteredException'' then Some UnregisteredException
      else reason_classes e n)"

subsection \<open>The client\<close>

text \<open>
  The first eleven fields are the attributes of the object. The last four are the history
  of the world: how many times the clock was read, how many connection objects were
  created, how many requests were posted, and the events so far.
\<close>

record state =
  base_url :: string
  root_cert_path :: verify
  auth_key :: "string option"
  auth_key_id :: "string option"
  team_id :: "string option"
  client_cert_path :: "string option"
  client_cert_passphrase :: "string option"
  auth_type :: string
  auth_token_time :: "real option"
  auth_token_storage :: "string option"
  client_storage :: "httpx_client option"
  clock_reads :: nat
  created :: nat
  posts :: nat
  events :: "event list"

definition MODE_PROD :: string where "MODE_PROD = ''prod''"
definition MODE_DEV :: string where "MODE_DEV = ''dev''"

definition BASE_URLS :: "(string \<times> string) list" where
  "BASE_URLS =
     [(MODE_PROD, ''https://api.push.apple.com:443''),
      (MODE_DEV, ''https://api.development.push.apple.com:443'')]"

definition AUTH_TOKEN_LIFETIME :: real where
  "AUTH_TOKEN_LIFETIME = 45 * 60"

definition AUTH_TOKEN_ENCRYPTION :: string where
  "AUTH_TOKEN_ENCRYPTION = ''ES256''"

text \<open>\<^verbatim>\<open>_get_auth_key\<close>: the file system is a parameter, \<open>Inl\<close> when the file cannot be read.\<close>

definition p_get_auth_key :: "(string \<Rightarrow> py_exception + string) \<Rightarrow> string \<Rightarrow> py_exception + string" where
  "p_get_auth_key read_file auth_key_path = read_file auth_key_path"

text \<open>
  Line 57: the key is read when a path is given and is not empty, and is \<^verbatim>\<open>None\<close>
  otherwise.
\<close>

definition load_auth_key :: "(string \<Rightarrow> py_exception + string) \<Rightarrow> string option \<Rightarrow> py_exception + string option" where
  "load_auth_key read_file auth_key_path =
     (case auth_key_path of
        None \<Rightarrow> Inr None
      | Some path \<Rightarrow>
          if truthy auth_key_path then map_sum id Some (p_get_auth_key read_file path)
          else Inr None)"

text \<open>\<^verbatim>\<open>__init__\<close>, lines 24 to 73. The new object starts with an empty history.\<close>

definition init ::
  "(string \<Rightarrow> py_exception + string) \<Rightarrow> string \<Rightarrow> verify option \<Rightarrow> string option \<Rightarrow>
   string option \<Rightarrow> string option \<Rightarrow> string option \<Rightarrow> string option \<Rightarrow> py_exception + state" where
  "init read_file mode root_cert_path0 auth_key_path auth_key_id0 team_id0
        client_cert_path0 client_cert_passphrase0 =
     (let root_cert_path1 = (case root_cert_path0 of None \<Rightarrow> VerifyBool True | Some v \<Rightarrow> v) in
      case map_of BASE_URLS mode of
        None \<Rightarrow> Inl (KeyError mode)
      | Some url \<Rightarrow>
          (case load_auth_key read_file auth_key_path of
             Inl err \<Rightarrow> Inl err
           | Inr auth_key0 \<Rightarrow>
               if truthy auth_key0 \<and> truthy auth_key_id0 \<and> truthy team_id0 then
                 Inr \<lparr>base_url = url, root_cert_path = root_cert_path1, auth_key = auth_key0,
                      auth_key_id = auth_key_id0, team_id = team_id0,
                      client_cert_path = client_cert_path0,
                      client_cert_passphrase = client_cert_passphrase0,
                      auth_type = ''jwt'', auth_token_time = None, auth_token_storage = None,
                      client_storage = None, clock_reads = 0, created = 0, posts = 0, events = []\<rparr>
               else if truthy client_cert_path0 \<and> truthy client_cert_passphrase0 then
                 Inr \<lparr>base_url = url, root_cert_path = root_cert_path1, auth_key = auth_key0,
                      auth_key_id = auth_key_id0, team_id = team_id0,
                      client_cert_path = client_cert_path0,
                      client_cert_passphrase = client_cert_passphrase0,
                      auth_type = ''cert'', auth_token_time = None, auth_token_storage = None,
                      client_storage = None, clock_reads = 0, created = 0, posts = 0, events = []\<rparr>
               else Inl (ValueError ''Either the auth key or the client cert must be provided.'')))"

text \<open>\<^verbatim>\<open>time.time()\<close>: the next reading of the clock.\<close>

definition time_time :: "env \<Rightarrow> state \<Rightarrow> real \<times> state" where
  "time_time e s = (clock e (clock_reads s), s\<lparr>clock_reads := Suc (clock_reads s)\<rparr>)"

text \<open>\<^verbatim>\<open>_is_auth_token_expired\<close>, lines 193 to 197.\<close>

definition p_is_auth_token_expired :: "env \<Rightarrow> state \<Rightarrow> bool \<times> state" where
  "p_is_auth_token_expired e s =
     (case auth_token_time s of
        None \<Rightarrow> (True, s)
      | Some t \<Rightarrow> (case time_time e s of (now, s1) \<Rightarrow> (now \<ge> t + AUTH_TOKEN_LIFETIME, s1)))"

text \<open>Lines 156 to 166: the body of the \<^verbatim>\<open>if\<close> in \<^verbatim>\<open>_auth_token\<close>, which mints a token.\<close>

definition mint_auth_token :: "env \<Rightarrow> state \<Rightarrow> string \<times> state" where
  "mint_auth_token e s =
     (case time_time e s of (now, s1) \<Rightarrow>
        let s2 = s1\<lparr>auth_token_time := Some now\<rparr>;
            token_dict = (team_id s2, now);
            hdrs = (AUTH_TOKEN_ENCRYPTION, auth_key_id s2);
            auth_token = jwt_encode e token_dict (str (auth_key s2)) AUTH_TOKEN_ENCRYPTION hdrs
        in (auth_token, s2\<lparr>auth_token_storage := Some auth_token\<rparr>))"

text \<open>
  The property \<^verbatim>\<open>_auth_token\<close>, lines 153 to 168. Python's \<^verbatim>\<open>or\<close> does not evaluate
  \<^verbatim>\<open>_is_auth_token_expired\<close> when the storage is \<^verbatim>\<open>None\<close>.
\<close>

definition p_auth_token :: "env \<Rightarrow> state \<Rightarrow> string \<times> state" where
  "p_auth_token e s =
     (case auth_token_storage s of
        None \<Rightarrow> mint_auth_token e s
      | Some v \<Rightarrow>
          (case p_is_auth_token_expired e s of (expired, s1) \<Rightarrow>
             if expired then mint_auth_token e s1 else (v, s1)))"

text \<open>\<^verbatim>\<open>_authenticate_request\<close>, lines 149 to 151.\<close>

definition p_authenticate_request :: "env \<Rightarrow> request \<Rightarrow> state \<Rightarrow> request \<times> state" where
  "p_authenticate_request e r s =
     (case p_auth_token e s of (tok, s1) \<Rightarrow>
        (r\<lparr>req_headers := AList.update ''authorization'' (''bearer '' @ tok) (req_headers r)\<rparr>, s1))"

text \<open>The property \<^verbatim>\<open>_client\<close>, lines 170 to 191.\<close>

definition p_client :: "state \<Rightarrow> httpx_client \<times> state" where
  "p_client s =
     (case client_storage s of
        Some k \<Rightarrow> (k, s)
      | None \<Rightarrow>
          let limits = (1, 0);
              k = \<lparr>client_id = created s,
                   client_auth = (auth_type s = ''jwt''),
                   client_cert = (if auth_type s = ''cert''
                                  then Some (str (client_cert_path s), client_cert_path s,
                                             client_cert_passphrase s)
                                  else None),
                   client_verify = root_cert_path s,
                   client_http2 = True,
                   client_timeout = 10,
                   client_limits = limits,
                   client_base_url = base_url s\<rparr>
          in (k, s\<lparr>client_storage := Some k, created := Suc (created s),
                    events := events s @ [Created (created s)]\<rparr>))"

text \<open>
  \<^verbatim>\<open>AsyncClient.post\<close> of httpx: a client built with an \<^verbatim>\<open>auth\<close> hook calls it on
  the request, then the transport answers.
\<close>

definition httpx_post :: "env \<Rightarrow> httpx_client \<Rightarrow> string \<Rightarrow> string \<Rightarrow> (string \<times> string) list \<Rightarrow> state \<Rightarrow> http_result \<times> state" where
  "httpx_post e k url data hdrs s =
     (let r = \<lparr>req_url = url, req_data = data, req_headers = hdrs\<rparr> in
      case (if client_auth k then p_authenticate_request e r s else (r, s)) of (r1, s1) \<Rightarrow>
        (transport e (posts s1),
         s1\<lparr>posts := Suc (posts s1), events := events s1 @ [Posted (client_id k) r1]\<rparr>))"

text \<open>\<^verbatim>\<open>_send_request\<close>, lines 145 to 147.\<close>

definition p_send_request :: "env \<Rightarrow> (string \<times> string) list \<Rightarrow> string \<Rightarrow> string \<Rightarrow> state \<Rightarrow> http_result \<times> state" where
  "p_send_request e hdrs json_data device_token s =
     (let url = ''/3/device/'' @ device_token in
      case p_client s of (k, s1) \<Rightarrow> httpx_post e k url json_data hdrs s1)"

text \<open>\<^verbatim>\<open>_get_exception_class\<close>, lines 215 to 221.\<close>

definition fstring :: "env \<Rightarrow> py_value \<Rightarrow> string" where
  "fstring e v = (case v of PStr t \<Rightarrow> t | _ \<Rightarrow> format_value e v)"

definition p_get_exception_class :: "env \<Rightarrow> py_value \<Rightarrow> py_exception + py_class" where
  "p_get_exception_class e reason =
     (let exception_class_name = fstring e reason @ ''Exception'' in
      case getattr_exceptions e exception_class_name of
        Some c \<Rightarrow> Inr c
      | None \<Rightarrow> Inl (NotImplementedError (''Reason not implemented: '' @ fstring e reason)))"

text \<open>
  Lines 131 to 143 of \<^verbatim>\<open>_push\<close>: what is raised for a response whose status is not
  200. The block always raises, so the result is the exception.
\<close>

definition p_push_failure :: "env \<Rightarrow> response \<Rightarrow> py_exception" where
  "p_push_failure e resp =
     (let apns_id = map_of (resp_headers resp) ''apns-id'' in
      case json_loads e (resp_text resp) of
        None \<Rightarrow> JSONDecodeError
      | Some apns_data \<Rightarrow>
          (case getitem apns_data ''reason'' of
             Inl err \<Rightarrow> err
           | Inr reason \<Rightarrow>
               (case p_get_exception_class e reason of
                  Inl err \<Rightarrow> err
                | Inr exception_class \<Rightarrow>
                    let exception_kwargs =
                          [(''status_code'', PInt (resp_status_code resp)),
                           (''apns_id'', case apns_id of None \<Rightarrow> PNone | Some a \<Rightarrow> PStr a)]
                    in if issubclass exception_class ''UnregisteredException'' then
                         (case getitem apns_data ''timestamp'' of
                            Inl err \<Rightarrow> err
                          | Inr ts \<Rightarrow>
                              Raised exception_class (exception_kwargs @ [(''timestamp'', ts)]))
                       else Raised exception_class exception_kwargs)))"

text \<open>\<^verbatim>\<open>_push\<close>, lines 119 to 143.\<close>

definition p_push :: "env \<Rightarrow> (string \<times> string) list \<Rightarrow> string \<Rightarrow> string \<Rightarrow> state \<Rightarrow> (py_exception + unit) \<times> state" where
  "p_push e hdrs json_data device_token s =
     (case p_send_request e hdrs json_data device_token s of
        (RequestError, s1) \<Rightarrow> (Inl (Raised APNSConnectionException []), s1)
      | (Response resp, s1) \<Rightarrow>
          if resp_status_code resp \<noteq> 200 then (Inl (p_push_failure e resp), s1)
          else (Inr (), s1))"

text \<open>\<^verbatim>\<open>_reset_client\<close>, lines 204 to 208, and \<^verbatim>\<open>_reset_auth_token\<close>, lines 199 to 202.\<close>

definition p_reset_client :: "state \<Rightarrow> state" where
  "p_reset_client s =
     (case client_storage s of
        Some k \<Rightarrow> s\<lparr>events := events s @ [Closed (client_id k)], client_storage := None\<rparr>
      | None \<Rightarrow> s\<lparr>client_storage := None\<rparr>)"

definition p_reset_auth_token :: "state \<Rightarrow> state" where
  "p_reset_auth_token s = s\<lparr>auth_token_time := None, auth_token_storage := None\<rparr>"

text \<open>\<^verbatim>\<open>close\<close>, lines 114 to 117.\<close>

definition close :: "state \<Rightarrow> state" where
  "close s = p_reset_auth_token (p_reset_client s)"

text \<open>
  \<^verbatim>\<open>push\<close>, lines 81 to 112. The loop over \<^verbatim>\<open>range(3)\<close> is a recursion on the
  number of attempts left; \<open>exc\<close> is the variable of that name. The result of the loop is
  \<open>Inl\<close> for an exception that neither handler catches, which leaves \<^verbatim>\<open>push\<close> at
  once, and otherwise the value of \<open>exc\<close> when the loop ends.
\<close>

record notification =
  get_headers :: "(string \<times> string) list"
  get_json_data :: string

fun push_loop ::
  "env \<Rightarrow> nat \<Rightarrow> (string \<times> string) list \<Rightarrow> string \<Rightarrow> string \<Rightarrow> py_exception option \<Rightarrow> state \<Rightarrow>
   (py_exception + py_exception option) \<times> state" where
  "push_loop e 0 hdrs json_data device_token exc s = (Inr exc, s)"
| "push_loop e (Suc n) hdrs json_data device_token exc s =
     (case p_push e hdrs json_data device_token s of
        (Inr u, s1) \<Rightarrow> (Inr None, s1)
      | (Inl err, s1) \<Rightarrow>
          if isinstance err ''APNSServerException'' then
            push_loop e n hdrs json_data device_token (Some err) (p_reset_client s1)
          else if isinstance err ''APNSException'' then (Inr (Some err), s1)
          else (Inl err, s1))"

definition push :: "env \<Rightarrow> notification \<Rightarrow> string \<Rightarrow> state \<Rightarrow> (py_exception + unit) \<times> state" where
  "push e notification device_token s =
     (let hdrs = get_headers notification;
          json_data = get_json_data notification
      in case push_loop e 3 hdrs json_data device_token None s of
           (Inl err, s1) \<Rightarrow> (Inl err, s1)
         | (Inr (Some exc), s1) \<Rightarrow> (Inl exc, s1)
         | (Inr None, s1) \<Rightarrow> (Inr (), s1))"

subsection \<open>Reading the history\<close>

text \<open>An event without the request it carried.\<close>

datatype step = Create nat | Close nat | Post nat

fun step_of :: "event \<Rightarrow> step" where
  "step_of (Created i) = Create i"
| "step_of (Closed i) = Close i"
| "step_of (Posted i r) = Post i"

definition steps :: "state \<Rightarrow> step list" where
  "steps s = map step_of (events s)"

text \<open>
  The state in which the next attempt starts after a server-side failure: line 100 of
  \<^verbatim>\<open>push\<close> has reset the client.
\<close>

definition after_retry :: "env \<Rightarrow> (string \<times> string) list \<Rightarrow> string \<Rightarrow> string \<Rightarrow> state \<Rightarrow> state" where
  "after_retry e h d t s = p_reset_client (snd (p_push e h d t s))"

text \<open>
  A result of the transport that \<^verbatim>\<open>_push\<close> turns into an instance of
  \<^verbatim>\<open>APNSServerException\<close>.
\<close>

definition server_failure :: "env \<Rightarrow> http_result \<Rightarrow> bool" where
  "server_failure e x =
     (case x of
        RequestError \<Rightarrow> False
      | Response r \<Rightarrow>
          resp_status_code r \<noteq> 200 \<and> isinstance (p_push_failure e r) ''APNSServerException'')"

text \<open>The value passed as \<^verbatim>\<open>apns_id\<close>: the header, or \<^verbatim>\<open>None\<close> without it.\<close>

definition apns_id_value :: "response \<Rightarrow> py_value" where
  "apns_id_value r = (case map_of (resp_headers r) ''apns-id'' of None \<Rightarrow> PNone | Some a \<Rightarrow> PStr a)"

text \<open>The token that lines 158 to 165 sign for a reading of the clock.\<close>

definition minted_token :: "env \<Rightarrow> state \<Rightarrow> real \<Rightarrow> string" where
  "minted_token e s now =
     jwt_encode e (team_id s, now) (str (auth_key s)) AUTH_TOKEN_ENCRYPTION
       (AUTH_TOKEN_ENCRYPTION, auth_key_id s)"

subsection \<open>The words of the specification\<close>

text \<open>
  Section 3 of the specification: an authentication mechanism is fully specified when all
  its fields are present, and construction is to succeed for exactly one of the two.
\<close>

definition token_fields_present :: "string option \<Rightarrow> string option \<Rightarrow> string option \<Rightarrow> bool" where
  "token_fields_present auth_key_path auth_key_id0 team_id0 \<longleftrightarrow>
     truthy auth_key_path \<and> truthy auth_key_id0 \<and> truthy team_id0"

definition cert_fields_present :: "string option \<Rightarrow> string option \<Rightarrow> bool" where
  "cert_fields_present client_cert_path0 client_cert_passphrase0 \<longleftrightarrow>
     truthy client_cert_path0 \<and> truthy client_cert_passphrase0"

definition spec_exactly_one_auth ::
  "string option \<Rightarrow> string option \<Rightarrow> string option \<Rightarrow> string option \<Rightarrow> string option \<Rightarrow> bool" where
  "spec_exactly_one_auth auth_key_path auth_key_id0 team_id0 client_cert_path0 client_cert_passphrase0 \<longleftrightarrow>
     token_fields_present auth_key_path auth_key_id0 team_id0 \<noteq>
     cert_fields_present client_cert_path0 client_cert_passphrase0"

definition succeeds :: "'a + 'b \<Rightarrow> bool" where
  "succeeds x = (case x of Inl err \<Rightarrow> False | Inr v \<Rightarrow> True)"

text \<open>
  Section 7 of the specification: a failure is a typed exception, an instance of the class
  of the exceptions module that the reason of the body names, constructed from the status
  code of the response and its correlation id and, when that class is the unregistered
  one, from the timestamp of the body as well, and from nothing else.
\<close>

fun typed_failure :: "env \<Rightarrow> response \<Rightarrow> py_exception \<Rightarrow> bool" where
  "typed_failure e r (Raised c kw) =
     (case json_loads e (resp_text r) of
        Some (PDict kvs) \<Rightarrow>
          (case map_of kvs ''reason'' of
             Some reason \<Rightarrow>
               getattr_exceptions e (fstring e reason @ ''Exception'') = Some c \<and>
               (if issubclass c ''UnregisteredException''
                then (case map_of kvs ''timestamp'' of
                        Some ts \<Rightarrow>
                          kw = [(''status_code'', PInt (resp_status_code r)),
                                (''apns_id'', apns_id_value r), (''timestamp'', ts)]
                      | None \<Rightarrow> False)
                else kw = [(''status_code'', PInt (resp_status_code r)),
                           (''apns_id'', apns_id_value r)])
           | None \<Rightarrow> False)
      | _ \<Rightarrow> False)"
| "typed_failure e r _ = False"



subsection \<open>A concrete world\<close>

text \<open>
  A small instance of every parameter, on which the theorems below are evaluated: two
  classes named after reasons, five bodies, and a client constructed for token
  authentication.
\<close>

definition example_reason_classes :: "string \<Rightarrow> py_class option" where
  "example_reason_classes =
     map_of
       [(''ServiceUnavailableException'',
         \<lparr>cls_name = ''ServiceUnavailableException'',
          cls_bases = [''APNSServerException'', ''APNSException'', ''Exception'']\<rparr>),
        (''BadDeviceTokenException'',
         \<lparr>cls_name = ''BadDeviceTokenException'',
          cls_bases = [''APNSException'', ''Exception'']\<rparr>)]"

definition example_json_loads :: "string \<Rightarrow> py_value option" where
  \<open>example_json_loads =
     map_of
       [(''{"reason": "ServiceUnavailable"}'', PDict [(''reason'', PStr ''ServiceUnavailable'')]),
        (''{"reason": "BadDeviceToken"}'', PDict [(''reason'', PStr ''BadDeviceToken'')]),
        (''{"reason": "Unregistered", "timestamp": 1700000000000}'',
         PDict [(''reason'', PStr ''Unregistered''), (''timestamp'', PInt 1700000000000)]),
        (''{"reason": "Mystery"}'', PDict [(''reason'', PStr ''Mystery'')]),
        (''[]'', PList [])]\<close>

definition example_env :: "(nat \<Rightarrow> real) \<Rightarrow> (nat \<Rightarrow> http_result) \<Rightarrow> env" where
  "example_env ticks results =
     \<lparr>reason_classes = example_reason_classes,
      json_loads = example_json_loads,
      format_value = (\<lambda>v. ''?''),
      jwt_encode = (\<lambda>claims key alg hdrs. if snd claims < 2700 then ''first'' else ''second''),
      clock = ticks,
      transport = results\<rparr>"

definition example_response :: "int \<Rightarrow> string \<Rightarrow> response" where
  "example_response status body =
     \<lparr>resp_status_code = status, resp_headers = [(''apns-id'', ''A1'')], resp_text = body\<rparr>"

definition example_read_file :: "string \<Rightarrow> py_exception + string" where
  "example_read_file path = (if path = ''key.p8'' then Inr ''KEY'' else Inl (OSError path))"

definition example_state :: state where
  "example_state =
     \<lparr>base_url = ''https://api.push.apple.com:443'', root_cert_path = VerifyBool True,
      auth_key = Some ''KEY'', auth_key_id = Some ''KID'', team_id = Some ''TEAM'',
      client_cert_path = None, client_cert_passphrase = None, auth_type = ''jwt'',
      auth_token_time = None, auth_token_storage = None, client_storage = None,
      clock_reads = 0, created = 0, posts = 0, events = []\<rparr>"

definition example_cached_state :: state where
  "example_cached_state = example_state\<lparr>auth_token_time := Some 0, auth_token_storage := Some ''first''\<rparr>"

definition example_notification :: notification where
  "example_notification = \<lparr>get_headers = [(''apns-topic'', ''app'')], get_json_data = ''{}''\<rparr>"

section \<open>Properties\<close>

subsection \<open>What each method does to the history and to the connection storage\<close>

lemmas token_defs = p_auth_token_def mint_auth_token_def p_is_auth_token_expired_def time_time_def

lemma p_auth_token_world:
  "posts (snd (p_auth_token e s)) = posts s"
  "created (snd (p_auth_token e s)) = created s"
  "events (snd (p_auth_token e s)) = events s"
  "client_storage (snd (p_auth_token e s)) = client_storage s"
  by (simp_all add: token_defs Let_def case_prod_beta split: option.splits)

lemma p_authenticate_request_world:
  "posts (snd (p_authenticate_request e r s)) = posts s"
  "created (snd (p_authenticate_request e r s)) = created s"
  "events (snd (p_authenticate_request e r s)) = events s"
  "client_storage (snd (p_authenticate_request e r s)) = client_storage s"
  by (simp_all add: p_authenticate_request_def case_prod_beta p_auth_token_world)

lemma httpx_post_result: "fst (httpx_post e k url d h s) = transport e (posts s)"
  by (simp add: httpx_post_def Let_def case_prod_beta p_authenticate_request_world)

lemma httpx_post_world:
  "posts (snd (httpx_post e k url d h s)) = Suc (posts s)"
  "created (snd (httpx_post e k url d h s)) = created s"
  "client_storage (snd (httpx_post e k url d h s)) = client_storage s"
  "steps (snd (httpx_post e k url d h s)) = steps s @ [Post (client_id k)]"
  by (simp_all add: httpx_post_def steps_def Let_def case_prod_beta p_authenticate_request_world)

lemma p_client_world:
  "posts (snd (p_client s)) = posts s"
  "client_storage (snd (p_client s)) = Some (fst (p_client s))"
  by (simp_all add: p_client_def Let_def split: option.splits)

lemma p_client_Some:
  "client_storage s = Some k \<Longrightarrow> p_client s = (k, s)"
  by (simp add: p_client_def)

lemma p_client_None:
  "client_storage s = None \<Longrightarrow> client_id (fst (p_client s)) = created s"
  "client_storage s = None \<Longrightarrow> created (snd (p_client s)) = Suc (created s)"
  "client_storage s = None \<Longrightarrow> steps (snd (p_client s)) = steps s @ [Create (created s)]"
  by (simp_all add: p_client_def steps_def Let_def)

lemma p_send_request_result: "fst (p_send_request e h d t s) = transport e (posts s)"
  by (simp add: p_send_request_def Let_def case_prod_beta httpx_post_result p_client_world)

lemma p_send_request_world:
  "posts (snd (p_send_request e h d t s)) = Suc (posts s)"
  "client_storage (snd (p_send_request e h d t s)) = Some (fst (p_client s))"
  "created (snd (p_send_request e h d t s)) = created (snd (p_client s))"
  "steps (snd (p_send_request e h d t s)) = steps (snd (p_client s)) @ [Post (client_id (fst (p_client s)))]"
  by (simp_all add: p_send_request_def Let_def case_prod_beta httpx_post_world p_client_world)

lemma p_push_state: "snd (p_push e h d t s) = snd (p_send_request e h d t s)"
  by (simp add: p_push_def case_prod_beta split: http_result.splits)

lemma p_push_RequestError:
  "transport e (posts s) = RequestError \<Longrightarrow>
   fst (p_push e h d t s) = Inl (Raised APNSConnectionException [])"
  using p_send_request_result [of e h d t s]
  by (simp add: p_push_def case_prod_beta split: http_result.splits)

lemma p_push_Response:
  "transport e (posts s) = Response r \<Longrightarrow>
   fst (p_push e h d t s) = (if resp_status_code r \<noteq> 200 then Inl (p_push_failure e r) else Inr ())"
  using p_send_request_result [of e h d t s]
  by (simp add: p_push_def case_prod_beta split: http_result.splits)

lemma p_reset_client_world:
  "posts (p_reset_client s) = posts s"
  "created (p_reset_client s) = created s"
  "client_storage (p_reset_client s) = None"
  by (simp_all add: p_reset_client_def split: option.splits)

lemma p_reset_client_steps:
  "client_storage s = Some k \<Longrightarrow> steps (p_reset_client s) = steps s @ [Close (client_id k)]"
  by (simp add: p_reset_client_def steps_def)

subsection \<open>The retry loop\<close>

lemma after_retry_world:
  "posts (after_retry e h d t s) = Suc (posts s)"
  "client_storage (after_retry e h d t s) = None"
  "created (after_retry e h d t s) = created (snd (p_client s))"
  "steps (after_retry e h d t s) =
     steps (snd (p_client s)) @ [Post (client_id (fst (p_client s))), Close (client_id (fst (p_client s)))]"
  by (simp_all add: after_retry_def p_push_state p_reset_client_world p_send_request_world
      p_reset_client_steps [where k = "fst (p_client s)"])

lemma push_loop_step:
  "push_loop e (Suc n) h d t exc s =
     (case fst (p_push e h d t s) of
        Inr u \<Rightarrow> (Inr None, snd (p_push e h d t s))
      | Inl err \<Rightarrow>
          if isinstance err ''APNSServerException'' then
            push_loop e n h d t (Some err) (after_retry e h d t s)
          else if isinstance err ''APNSException'' then (Inr (Some err), snd (p_push e h d t s))
          else (Inl err, snd (p_push e h d t s)))"
  by (simp add: case_prod_beta after_retry_def split: sum.splits)

lemma push_via_loop:
  "push e n t s =
     (case fst (push_loop e 3 (get_headers n) (get_json_data n) t None s) of
        Inl err \<Rightarrow> Inl err
      | Inr None \<Rightarrow> Inr ()
      | Inr (Some exc) \<Rightarrow> Inl exc,
      snd (push_loop e 3 (get_headers n) (get_json_data n) t None s))"
  by (simp add: push_def Let_def case_prod_beta split: sum.splits option.splits)

text \<open>
  Claim C9. \<^verbatim>\<open>close()\<close> is idempotent. In any state, also one with no connection and
  no cached token, it ends with the connection storage, the cached token and its issue
  time cleared, and closing twice leaves the same state as closing once. The method has
  no statement that raises, so the model gives it no error result.
\<close>

theorem close_idempotent:
  "client_storage (close s) = None \<and> auth_token_storage (close s) = None \<and>
   auth_token_time (close s) = None \<and> close (close s) = close s"
  by (simp add: close_def p_reset_client_def p_reset_auth_token_def split: option.splits)

text \<open>
  Claim C7. When the first attempt is answered with status 200, \<^verbatim>\<open>push\<close> returns
  without raising and has made exactly one attempt: one request was posted, on the
  connection that \<^verbatim>\<open>_client\<close> gave, and that connection stays in the storage.
\<close>

theorem push_200_once:
  assumes "transport e (posts s) = Response r" and "resp_status_code r = 200"
  shows "fst (push e n t s) = Inr () \<and> posts (snd (push e n t s)) = Suc (posts s) \<and>
         steps (snd (push e n t s)) =
           steps (snd (p_client s)) @ [Post (client_id (fst (p_client s)))] \<and>
         client_storage (snd (push e n t s)) = Some (fst (p_client s))"
proof -
  let ?h = "get_headers n" and ?d = "get_json_data n"
  have ok: "fst (p_push e ?h ?d t s) = Inr ()"
    using assms by (simp add: p_push_Response)
  have "push_loop e 3 ?h ?d t None s = (Inr None, snd (p_send_request e ?h ?d t s))"
    by (simp add: numeral_3_eq_3 push_loop_step ok p_push_state del: push_loop.simps)
  then show ?thesis
    by (simp add: push_via_loop p_send_request_world)
qed


lemma server_failureD:
  assumes "server_failure e (transport e (posts s))"
  obtains r where "transport e (posts s) = Response r" "resp_status_code r \<noteq> 200"
    "isinstance (p_push_failure e r) ''APNSServerException''"
  using assms by (auto simp: server_failure_def split: http_result.splits)

lemma push_loop_retry:
  assumes "transport e (posts s) = Response r" "resp_status_code r \<noteq> 200"
    "isinstance (p_push_failure e r) ''APNSServerException''"
  shows "push_loop e (Suc n) h d t exc s =
           push_loop e n h d t (Some (p_push_failure e r)) (after_retry e h d t s)"
  using assms by (simp add: push_loop_step p_push_Response del: push_loop.simps)

lemma push_loop_raise:
  assumes "fst (p_push e h d t s) = Inl err" "\<not> isinstance err ''APNSServerException''"
  shows "push_loop e (Suc n) h d t exc s =
           (if isinstance err ''APNSException'' then Inr (Some err) else Inl err,
            snd (p_send_request e h d t s))"
  using assms by (simp add: push_loop_step p_push_state del: push_loop.simps)

text \<open>
  Claim C1. When each of the three attempts is answered with a status other than 200 that
  \<^verbatim>\<open>_push\<close> classifies as an instance of \<^verbatim>\<open>APNSServerException\<close>,
  \<^verbatim>\<open>push\<close> makes exactly three attempts, closes the connection after each and
  creates a new one for the next, and raises the exception classified from the response
  to the third attempt.
\<close>

theorem push_server_failures_three_attempts:
  assumes r1: "transport e (posts s) = Response r1"
      and r2: "transport e (posts s + 1) = Response r2"
      and r3: "transport e (posts s + 2) = Response r3"
      and n1: "resp_status_code r1 \<noteq> 200" and n2: "resp_status_code r2 \<noteq> 200"
      and n3: "resp_status_code r3 \<noteq> 200"
      and f1: "isinstance (p_push_failure e r1) ''APNSServerException''"
      and f2: "isinstance (p_push_failure e r2) ''APNSServerException''"
      and f3: "isinstance (p_push_failure e r3) ''APNSServerException''"
  shows "fst (push e n t s) = Inl (p_push_failure e r3) \<and>
         posts (snd (push e n t s)) = posts s + 3 \<and>
         steps (snd (push e n t s)) =
           steps (snd (p_client s)) @
             [Post (client_id (fst (p_client s))), Close (client_id (fst (p_client s))),
              Create (created (snd (p_client s))), Post (created (snd (p_client s))),
              Close (created (snd (p_client s))),
              Create (created (snd (p_client s)) + 1), Post (created (snd (p_client s)) + 1),
              Close (created (snd (p_client s)) + 1)] \<and>
         client_storage (snd (push e n t s)) = None"
proof -
  let ?h = "get_headers n" and ?d = "get_json_data n"
  define s1 where "s1 = after_retry e ?h ?d t s"
  define s2 where "s2 = after_retry e ?h ?d t s1"
  define s3 where "s3 = after_retry e ?h ?d t s2"
  have p1: "posts s1 = posts s + 1" and c1: "client_storage s1 = None"
    and k1: "created s1 = created (snd (p_client s))"
    and t1: "steps s1 = steps (snd (p_client s)) @
               [Post (client_id (fst (p_client s))), Close (client_id (fst (p_client s)))]"
    by (simp_all add: s1_def after_retry_world)
  have p2: "posts s2 = posts s + 2" and c2: "client_storage s2 = None"
    and k2: "created s2 = created s1 + 1"
    and t2: "steps s2 = steps s1 @ [Create (created s1), Post (created s1), Close (created s1)]"
    by (simp_all add: s2_def after_retry_world p1 p_client_None [OF c1])
  have p3: "posts s3 = posts s + 3" and c3: "client_storage s3 = None"
    and t3: "steps s3 = steps s2 @ [Create (created s2), Post (created s2), Close (created s2)]"
    by (simp_all add: s3_def after_retry_world p2 p_client_None [OF c2])
  have l1: "push_loop e 3 ?h ?d t None s = push_loop e 2 ?h ?d t (Some (p_push_failure e r1)) s1"
    using push_loop_retry [OF r1 n1 f1, of 2 ?h ?d t None]
    by (simp add: s1_def numeral_3_eq_3 numeral_2_eq_2 del: push_loop.simps)
  have l2: "push_loop e 2 ?h ?d t (Some (p_push_failure e r1)) s1 =
            push_loop e 1 ?h ?d t (Some (p_push_failure e r2)) s2"
    using push_loop_retry [of e s1 r2 1 ?h ?d t "Some (p_push_failure e r1)"] r2 n2 f2
    by (simp add: s2_def p1 numeral_2_eq_2 del: push_loop.simps)
  have l3: "push_loop e 1 ?h ?d t (Some (p_push_failure e r2)) s2 =
            (Inr (Some (p_push_failure e r3)), s3)"
    using push_loop_retry [of e s2 r3 0 ?h ?d t "Some (p_push_failure e r2)"] r3 n3 f3
    by (simp add: s3_def p2 del: push_loop.simps) simp
  have "push_loop e 3 ?h ?d t None s = (Inr (Some (p_push_failure e r3)), s3)"
    by (simp only: l1 l2 l3)
  then show ?thesis
    by (simp add: push_via_loop p3 c3 t3 t2 t1 k2 k1)
qed

text \<open>
  Claim C2. When the first attempt is answered with a status other than 200 that
  \<^verbatim>\<open>_push\<close> classifies as a failure outside \<^verbatim>\<open>APNSServerException\<close>,
  \<^verbatim>\<open>push\<close> makes exactly one attempt and raises that exception at once. Nothing
  is closed: the history gains the post alone (after the creation of the connection, when
  there was none), and the storage holds the connection the request was sent on, which
  is the stored one when there was one.
\<close>

theorem push_client_failure_one_attempt:
  assumes r: "transport e (posts s) = Response r"
      and n200: "resp_status_code r \<noteq> 200"
      and client: "\<not> isinstance (p_push_failure e r) ''APNSServerException''"
  shows "fst (push e n t s) = Inl (p_push_failure e r) \<and>
         posts (snd (push e n t s)) = Suc (posts s) \<and>
         steps (snd (push e n t s)) =
           steps (snd (p_client s)) @ [Post (client_id (fst (p_client s)))] \<and>
         client_storage (snd (push e n t s)) = Some (fst (p_client s)) \<and>
         (\<forall>k. client_storage s = Some k \<longrightarrow> client_storage (snd (push e n t s)) = Some k)"
proof -
  let ?h = "get_headers n" and ?d = "get_json_data n"
  have "fst (p_push e ?h ?d t s) = Inl (p_push_failure e r)"
    using r n200 by (simp add: p_push_Response)
  from push_loop_raise [OF this client, of 2 None]
  have "push_loop e 3 ?h ?d t None s =
          (if isinstance (p_push_failure e r) ''APNSException''
           then Inr (Some (p_push_failure e r)) else Inl (p_push_failure e r),
           snd (p_send_request e ?h ?d t s))"
    by (simp add: numeral_3_eq_3 del: push_loop.simps)
  then show ?thesis
    by (simp add: push_via_loop p_send_request_world p_client_Some)
qed

lemma connection_not_server:
  "\<not> issubclass APNSConnectionException ''APNSServerException''"
  "issubclass APNSConnectionException ''APNSException''"
  by (simp_all add: issubclass_def APNSConnectionException_def)

lemma push_loop_RequestError:
  assumes "transport e (posts s) = RequestError"
  shows "push_loop e (Suc n) h d t exc s =
           (Inr (Some (Raised APNSConnectionException [])), snd (p_send_request e h d t s))"
proof -
  have "fst (p_push e h d t s) = Inl (Raised APNSConnectionException [])"
    using assms by (simp add: p_push_RequestError)
  moreover have "\<not> isinstance (Raised APNSConnectionException []) ''APNSServerException''"
    by (simp add: connection_not_server)
  ultimately have "push_loop e (Suc n) h d t exc s =
      (if isinstance (Raised APNSConnectionException []) ''APNSException''
       then Inr (Some (Raised APNSConnectionException []))
       else Inl (Raised APNSConnectionException []), snd (p_send_request e h d t s))"
    by (rule push_loop_raise)
  then show ?thesis by (simp add: connection_not_server)
qed

lemma push_loop_request_error:
  assumes "\<forall>i<k. server_failure e (transport e (posts s + i))"
      and "transport e (posts s + k) = RequestError"
  shows "fst (push_loop e (Suc (k + m)) h d t exc s) = Inr (Some (Raised APNSConnectionException [])) \<and>
         posts (snd (push_loop e (Suc (k + m)) h d t exc s)) = posts s + k + 1"
  using assms
proof (induction k arbitrary: s exc)
  case 0
  then have "transport e (posts s) = RequestError" by simp
  then show ?case
    by (simp add: push_loop_RequestError p_send_request_world del: push_loop.simps)
next
  case (Suc k)
  from Suc.prems(1) have "server_failure e (transport e (posts s + 0))"
    by blast
  then have "server_failure e (transport e (posts s))" by simp
  then obtain r where r: "transport e (posts s) = Response r" "resp_status_code r \<noteq> 200"
    "isinstance (p_push_failure e r) ''APNSServerException''"
    by (rule server_failureD)
  let ?s = "after_retry e h d t s"
  have ps: "posts ?s = Suc (posts s)" by (simp add: after_retry_world)
  have a: "\<forall>i<k. server_failure e (transport e (posts ?s + i))"
  proof (intro allI impI)
    fix i assume "i < k"
    then have "Suc i < Suc k" by simp
    with Suc.prems(1) have "server_failure e (transport e (posts s + Suc i))" by blast
    then show "server_failure e (transport e (posts ?s + i))" by (simp add: ps)
  qed
  have b: "transport e (posts ?s + k) = RequestError"
    using Suc.prems(2) by (simp add: ps)
  have step: "push_loop e (Suc (Suc k + m)) h d t exc s =
              push_loop e (Suc (k + m)) h d t (Some (p_push_failure e r)) ?s"
    using push_loop_retry [OF r, of "Suc (k + m)" h d t exc] by simp
  from Suc.IH [OF a b, of "Some (p_push_failure e r)"]
  show ?case by (simp only: step ps) simp
qed

text \<open>
  Claim C3. In whichever attempt the transport raises a request error (attempt \<open>k + 1\<close>,
  reached after \<open>k\<close> server-side failures), \<^verbatim>\<open>push\<close> raises
  \<^verbatim>\<open>APNSConnectionException\<close> and posts nothing more: the requests posted are
  the \<open>k + 1\<close> up to that attempt. The class hierarchy of the exceptions module is the
  one modelled from the specification.
\<close>

theorem push_request_error_not_retried:
  assumes "k < 3"
      and "\<forall>i<k. server_failure e (transport e (posts s + i))"
      and "transport e (posts s + k) = RequestError"
  shows "fst (push e n t s) = Inl (Raised APNSConnectionException []) \<and>
         posts (snd (push e n t s)) = posts s + k + 1"
proof -
  let ?h = "get_headers n" and ?d = "get_json_data n"
  from assms(1) have e3: "Suc (k + (2 - k)) = 3" by simp
  have "fst (push_loop e (Suc (k + (2 - k))) ?h ?d t None s) =
          Inr (Some (Raised APNSConnectionException [])) \<and>
        posts (snd (push_loop e (Suc (k + (2 - k))) ?h ?d t None s)) = posts s + k + 1"
    by (rule push_loop_request_error [OF assms(2,3)])
  then have "fst (push_loop e 3 ?h ?d t None s) = Inr (Some (Raised APNSConnectionException [])) \<and>
        posts (snd (push_loop e 3 ?h ?d t None s)) = posts s + k + 1"
    by (simp only: e3)
  then show ?thesis
    by (simp add: push_via_loop del: push_loop.simps)
qed

subsection \<open>Classification of a response\<close>

lemma p_push_failure_kwargs:
  assumes "json_loads e (resp_text r) = Some (PDict kvs)"
      and "map_of kvs ''reason'' = Some reason"
      and "getattr_exceptions e (fstring e reason @ ''Exception'') = Some c"
  shows "p_push_failure e r =
           (if issubclass c ''UnregisteredException'' then
              (case map_of kvs ''timestamp'' of
                 None \<Rightarrow> KeyError ''timestamp''
               | Some ts \<Rightarrow>
                   Raised c [(''status_code'', PInt (resp_status_code r)),
                             (''apns_id'', apns_id_value r), (''timestamp'', ts)])
            else Raised c [(''status_code'', PInt (resp_status_code r)),
                           (''apns_id'', apns_id_value r)])"
  using assms
  by (simp add: p_push_failure_def p_get_exception_class_def apns_id_value_def Let_def
      split: option.splits)

lemma p_push_failure_unknown:
  assumes "json_loads e (resp_text r) = Some (PDict kvs)"
      and "map_of kvs ''reason'' = Some reason"
      and "getattr_exceptions e (fstring e reason @ ''Exception'') = None"
  shows "p_push_failure e r = NotImplementedError (''Reason not implemented: '' @ fstring e reason)"
  using assms
  by (simp add: p_push_failure_def p_get_exception_class_def Let_def)

lemma getattr_Unregistered:
  "getattr_exceptions e ''UnregisteredException'' = Some UnregisteredException"
  "issubclass UnregisteredException ''UnregisteredException''"
  by (simp_all add: getattr_exceptions_def issubclass_def UnregisteredException_def)

text \<open>
  Claim C4. For a response with a status other than 200 whose body is a JSON object with
  a reason string, the exception that \<^verbatim>\<open>_push\<close> raises is determined by the
  reason: it is an instance of the class of the exceptions module named by the reason
  followed by \<^verbatim>\<open>Exception\<close>, with the status code and the \<^verbatim>\<open>apns-id\<close>
  header; for the reason \<^verbatim>\<open>Unregistered\<close> (and any subclass of
  \<^verbatim>\<open>UnregisteredException\<close>) it also carries the timestamp of the body; and for
  a reason that names no class it is NotImplementedError, which \<^verbatim>\<open>push\<close> lets
  through to the caller after that one attempt.
\<close>

theorem reason_determines_exception:
  assumes r: "transport e (posts s) = Response r"
      and n200: "resp_status_code r \<noteq> 200"
      and body: "json_loads e (resp_text r) = Some (PDict kvs)"
      and reason: "map_of kvs ''reason'' = Some (PStr reason)"
  shows "(\<forall>c. getattr_exceptions e (reason @ ''Exception'') = Some c \<longrightarrow>
            \<not> issubclass c ''UnregisteredException'' \<longrightarrow>
            fst (p_push e h d t s) =
              Inl (Raised c [(''status_code'', PInt (resp_status_code r)),
                             (''apns_id'', apns_id_value r)])) \<and>
         (\<forall>c ts. getattr_exceptions e (reason @ ''Exception'') = Some c \<longrightarrow>
            issubclass c ''UnregisteredException'' \<longrightarrow> map_of kvs ''timestamp'' = Some ts \<longrightarrow>
            fst (p_push e h d t s) =
              Inl (Raised c [(''status_code'', PInt (resp_status_code r)),
                             (''apns_id'', apns_id_value r), (''timestamp'', ts)])) \<and>
         (\<forall>ts. reason = ''Unregistered'' \<longrightarrow> map_of kvs ''timestamp'' = Some ts \<longrightarrow>
            fst (p_push e h d t s) =
              Inl (Raised UnregisteredException
                     [(''status_code'', PInt (resp_status_code r)),
                      (''apns_id'', apns_id_value r), (''timestamp'', ts)])) \<and>
         (getattr_exceptions e (reason @ ''Exception'') = None \<longrightarrow>
            fst (p_push e h d t s) = Inl (NotImplementedError (''Reason not implemented: '' @ reason)) \<and>
            fst (push e n t s) = Inl (NotImplementedError (''Reason not implemented: '' @ reason)) \<and>
            posts (snd (push e n t s)) = Suc (posts s))"
proof -
  have f: "fstring e (PStr reason) = reason" by (simp add: fstring_def)
  have p: "\<And>h d. fst (p_push e h d t s) = Inl (p_push_failure e r)"
    using r n200 by (simp add: p_push_Response)
  have a: "\<forall>c. getattr_exceptions e (reason @ ''Exception'') = Some c \<longrightarrow>
            \<not> issubclass c ''UnregisteredException'' \<longrightarrow>
            fst (p_push e h d t s) =
              Inl (Raised c [(''status_code'', PInt (resp_status_code r)),
                             (''apns_id'', apns_id_value r)])"
    using p_push_failure_kwargs [OF body reason] by (simp add: p f)
  have b: "\<forall>c ts. getattr_exceptions e (reason @ ''Exception'') = Some c \<longrightarrow>
            issubclass c ''UnregisteredException'' \<longrightarrow> map_of kvs ''timestamp'' = Some ts \<longrightarrow>
            fst (p_push e h d t s) =
              Inl (Raised c [(''status_code'', PInt (resp_status_code r)),
                             (''apns_id'', apns_id_value r), (''timestamp'', ts)])"
    using p_push_failure_kwargs [OF body reason] by (simp add: p f)
  have c: "\<forall>ts. reason = ''Unregistered'' \<longrightarrow> map_of kvs ''timestamp'' = Some ts \<longrightarrow>
            fst (p_push e h d t s) =
              Inl (Raised UnregisteredException
                     [(''status_code'', PInt (resp_status_code r)),
                      (''apns_id'', apns_id_value r), (''timestamp'', ts)])"
    using b getattr_Unregistered by simp
  have d: "getattr_exceptions e (reason @ ''Exception'') = None \<longrightarrow>
            fst (p_push e h d t s) = Inl (NotImplementedError (''Reason not implemented: '' @ reason)) \<and>
            fst (push e n t s) = Inl (NotImplementedError (''Reason not implemented: '' @ reason)) \<and>
            posts (snd (push e n t s)) = Suc (posts s)"
  proof
    assume none: "getattr_exceptions e (reason @ ''Exception'') = None"
    have q: "p_push_failure e r = NotImplementedError (''Reason not implemented: '' @ reason)"
      using p_push_failure_unknown [OF body reason] none by (simp add: f)
    have "fst (p_push e (get_headers n) (get_json_data n) t s) =
            Inl (NotImplementedError (''Reason not implemented: '' @ reason))"
      by (simp add: p q)
    from push_loop_raise [OF this, of 2 None]
    have "push_loop e 3 (get_headers n) (get_json_data n) t None s =
            (Inl (NotImplementedError (''Reason not implemented: '' @ reason)),
             snd (p_send_request e (get_headers n) (get_json_data n) t s))"
      by (simp add: numeral_3_eq_3 del: push_loop.simps)
    then show "fst (p_push e h d t s) = Inl (NotImplementedError (''Reason not implemented: '' @ reason)) \<and>
            fst (push e n t s) = Inl (NotImplementedError (''Reason not implemented: '' @ reason)) \<and>
            posts (snd (push e n t s)) = Suc (posts s)"
      by (simp add: p q push_via_loop p_send_request_world)
  qed
  from a b c d show ?thesis by blast
qed



lemma typed_failure_class:
  assumes "typed_failure e r (Raised c kw)"
  obtains kvs reason where
    "json_loads e (resp_text r) = Some (PDict kvs)"
    "map_of kvs ''reason'' = Some reason"
    "getattr_exceptions e (fstring e reason @ ''Exception'') = Some c"
    "map_of kw ''status_code'' = Some (PInt (resp_status_code r))"
    "map_of kw ''apns_id'' = Some (apns_id_value r)"
    "issubclass c ''UnregisteredException'' \<Longrightarrow>
       map_of kvs ''timestamp'' \<noteq> None \<and> map_of kw ''timestamp'' = map_of kvs ''timestamp''"
proof -
  from assms obtain v where v: "json_loads e (resp_text r) = Some v"
    by (cases "json_loads e (resp_text r)") simp_all
  with assms obtain kvs where kvs: "v = PDict kvs"
    by (cases v) simp_all
  from v kvs have body: "json_loads e (resp_text r) = Some (PDict kvs)"
    by simp
  with assms obtain reason where reason: "map_of kvs ''reason'' = Some reason"
    by (cases "map_of kvs ''reason''") simp_all
  from assms body reason
  have cls: "getattr_exceptions e (fstring e reason @ ''Exception'') = Some c"
    and kw: "if issubclass c ''UnregisteredException''
             then (case map_of kvs ''timestamp'' of
                     Some ts \<Rightarrow>
                       kw = [(''status_code'', PInt (resp_status_code r)),
                             (''apns_id'', apns_id_value r), (''timestamp'', ts)]
                   | None \<Rightarrow> False)
             else kw = [(''status_code'', PInt (resp_status_code r)),
                        (''apns_id'', apns_id_value r)]"
    by simp_all
  from kw have "map_of kw ''status_code'' = Some (PInt (resp_status_code r))"
    and "map_of kw ''apns_id'' = Some (apns_id_value r)"
    and "issubclass c ''UnregisteredException'' \<Longrightarrow>
       map_of kvs ''timestamp'' \<noteq> None \<and> map_of kw ''timestamp'' = map_of kvs ''timestamp''"
    by (auto split: if_splits option.splits)
  with body reason cls show thesis
    by (rule that)
qed



subsection \<open>The authentication token\<close>

lemma mint_auth_token_eq:
  "mint_auth_token e s =
     (minted_token e s (clock e (clock_reads s)),
      s\<lparr>clock_reads := Suc (clock_reads s),
        auth_token_time := Some (clock e (clock_reads s)),
        auth_token_storage := Some (minted_token e s (clock e (clock_reads s)))\<rparr>)"
  by (simp add: mint_auth_token_def time_time_def minted_token_def Let_def)

lemma p_auth_token_reuse:
  assumes "auth_token_storage s = Some v" "auth_token_time s = Some t"
    "clock e (clock_reads s) < t + 2700"
  shows "p_auth_token e s = (v, s\<lparr>clock_reads := Suc (clock_reads s)\<rparr>)"
  using assms
  by (simp add: p_auth_token_def p_is_auth_token_expired_def time_time_def AUTH_TOKEN_LIFETIME_def)

lemma p_auth_token_expired:
  assumes "auth_token_storage s = Some v" "auth_token_time s = Some t"
    "clock e (clock_reads s) - t \<ge> 2700"
  shows "p_auth_token e s = mint_auth_token e (s\<lparr>clock_reads := Suc (clock_reads s)\<rparr>)"
  using assms
  by (simp add: p_auth_token_def p_is_auth_token_expired_def time_time_def AUTH_TOKEN_LIFETIME_def)

lemma p_auth_token_empty:
  assumes "auth_token_storage s = None \<or> auth_token_time s = None"
  shows "p_auth_token e s = mint_auth_token e s"
  using assms
  by (auto simp add: p_auth_token_def p_is_auth_token_expired_def split: option.splits)

lemma token_untouched:
  "auth_token_storage (snd (p_client s)) = auth_token_storage s"
  "auth_token_time (snd (p_client s)) = auth_token_time s"
  "auth_token_storage (p_reset_client s) = auth_token_storage s"
  "auth_token_time (p_reset_client s) = auth_token_time s"
  by (simp_all add: p_client_def p_reset_client_def Let_def split: option.splits)

lemma p_send_request_token:
  "auth_token_storage (snd (p_send_request e h d t s)) =
     (if client_auth (fst (p_client s))
      then auth_token_storage (snd (p_auth_token e (snd (p_client s))))
      else auth_token_storage s)"
  "auth_token_time (snd (p_send_request e h d t s)) =
     (if client_auth (fst (p_client s))
      then auth_token_time (snd (p_auth_token e (snd (p_client s))))
      else auth_token_time s)"
  by (simp_all add: p_send_request_def httpx_post_def p_authenticate_request_def Let_def
      case_prod_beta token_untouched)

text \<open>
  Claim C6. A request for the token returns the cached value, and leaves it and its issue
  time as they are, while the clock reads less than the issue time plus 2700 seconds. It
  mints a token, signed over a new reading of the clock that becomes the issue time,
  exactly when the cache is empty or the reading minus the issue time is at least 2700;
  with a clock that does not run backwards the issue time then differs from the old one.
  Nothing else mints: \<^verbatim>\<open>_client\<close> and \<^verbatim>\<open>_reset_client\<close> leave the token and
  its issue time alone, and a request sent by \<^verbatim>\<open>_send_request\<close> changes them only
  through the one call of \<^verbatim>\<open>_auth_token\<close> that the authentication hook makes. The
  statement holds in every state, so at every point of a sequence of requests.
\<close>

theorem auth_token_reused_or_minted:
  "(\<forall>v t. auth_token_storage s = Some v \<longrightarrow> auth_token_time s = Some t \<longrightarrow>
      clock e (clock_reads s) < t + 2700 \<longrightarrow>
      fst (p_auth_token e s) = v \<and>
      auth_token_storage (snd (p_auth_token e s)) = Some v \<and>
      auth_token_time (snd (p_auth_token e s)) = Some t) \<and>
   (\<forall>v t. auth_token_storage s = Some v \<longrightarrow> auth_token_time s = Some t \<longrightarrow>
      clock e (clock_reads s) - t \<ge> 2700 \<longrightarrow>
      fst (p_auth_token e s) = minted_token e s (clock e (Suc (clock_reads s))) \<and>
      auth_token_storage (snd (p_auth_token e s)) =
        Some (minted_token e s (clock e (Suc (clock_reads s)))) \<and>
      auth_token_time (snd (p_auth_token e s)) = Some (clock e (Suc (clock_reads s))) \<and>
      (clock e (clock_reads s) \<le> clock e (Suc (clock_reads s)) \<longrightarrow>
         auth_token_time (snd (p_auth_token e s)) \<noteq> auth_token_time s)) \<and>
   (auth_token_storage s = None \<or> auth_token_time s = None \<longrightarrow>
      fst (p_auth_token e s) = minted_token e s (clock e (clock_reads s)) \<and>
      auth_token_storage (snd (p_auth_token e s)) =
        Some (minted_token e s (clock e (clock_reads s))) \<and>
      auth_token_time (snd (p_auth_token e s)) = Some (clock e (clock_reads s))) \<and>
   auth_token_storage (snd (p_client s)) = auth_token_storage s \<and>
   auth_token_time (snd (p_client s)) = auth_token_time s \<and>
   auth_token_storage (p_reset_client s) = auth_token_storage s \<and>
   auth_token_time (p_reset_client s) = auth_token_time s \<and>
   auth_token_storage (snd (p_send_request e h d t s)) =
     (if client_auth (fst (p_client s))
      then auth_token_storage (snd (p_auth_token e (snd (p_client s))))
      else auth_token_storage s) \<and>
   auth_token_time (snd (p_send_request e h d t s)) =
     (if client_auth (fst (p_client s))
      then auth_token_time (snd (p_auth_token e (snd (p_client s))))
      else auth_token_time s)"
proof -
  have reuse: "\<forall>v t. auth_token_storage s = Some v \<longrightarrow> auth_token_time s = Some t \<longrightarrow>
      clock e (clock_reads s) < t + 2700 \<longrightarrow>
      fst (p_auth_token e s) = v \<and>
      auth_token_storage (snd (p_auth_token e s)) = Some v \<and>
      auth_token_time (snd (p_auth_token e s)) = Some t"
    by (simp add: p_auth_token_reuse)
  have expired: "\<forall>v t. auth_token_storage s = Some v \<longrightarrow> auth_token_time s = Some t \<longrightarrow>
      clock e (clock_reads s) - t \<ge> 2700 \<longrightarrow>
      fst (p_auth_token e s) = minted_token e s (clock e (Suc (clock_reads s))) \<and>
      auth_token_storage (snd (p_auth_token e s)) =
        Some (minted_token e s (clock e (Suc (clock_reads s)))) \<and>
      auth_token_time (snd (p_auth_token e s)) = Some (clock e (Suc (clock_reads s))) \<and>
      (clock e (clock_reads s) \<le> clock e (Suc (clock_reads s)) \<longrightarrow>
         auth_token_time (snd (p_auth_token e s)) \<noteq> auth_token_time s)"
    by (simp add: p_auth_token_expired mint_auth_token_eq minted_token_def)
  have empty: "auth_token_storage s = None \<or> auth_token_time s = None \<longrightarrow>
      fst (p_auth_token e s) = minted_token e s (clock e (clock_reads s)) \<and>
      auth_token_storage (snd (p_auth_token e s)) =
        Some (minted_token e s (clock e (clock_reads s))) \<and>
      auth_token_time (snd (p_auth_token e s)) = Some (clock e (clock_reads s))"
    by (simp add: p_auth_token_empty mint_auth_token_eq)
  from reuse expired empty show ?thesis
    by (simp only: token_untouched p_send_request_token)
qed


subsection \<open>Construction\<close>

lemma init_eq:
  assumes "map_of BASE_URLS mode = Some url"
      and "load_auth_key read_file auth_key_path = Inr key"
  shows "init read_file mode rcp auth_key_path kid team cert pw =
           (if (truthy key \<and> truthy kid \<and> truthy team) \<or> (truthy cert \<and> truthy pw) then
              Inr \<lparr>base_url = url,
                   root_cert_path = (case rcp of None \<Rightarrow> VerifyBool True | Some v \<Rightarrow> v),
                   auth_key = key, auth_key_id = kid, team_id = team,
                   client_cert_path = cert, client_cert_passphrase = pw,
                   auth_type = (if truthy key \<and> truthy kid \<and> truthy team then ''jwt'' else ''cert''),
                   auth_token_time = None, auth_token_storage = None,
                   client_storage = None, clock_reads = 0, created = 0, posts = 0, events = []\<rparr>
            else Inl (ValueError ''Either the auth key or the client cert must be provided.''))"
  using assms by (simp add: init_def Let_def)

lemma load_auth_key_truthy:
  assumes "load_auth_key read_file auth_key_path = Inr key" and "truthy key"
  shows "truthy auth_key_path"
  using assms by (auto simp: load_auth_key_def split: option.splits if_splits)

text \<open>
  Claim C5, as amended. For a mode of \<^verbatim>\<open>prod\<close> or \<^verbatim>\<open>dev\<close> and a key file that
  can be read when its path is given (\<open>key\<close> is its content, or \<^verbatim>\<open>None\<close> without a
  path), construction succeeds if and only if at least one mechanism is fully specified:
  key, key id and team id all present and not empty, or certificate path and passphrase
  both present and not empty. Token authentication is chosen whenever its three fields
  are there, also when the certificate fields are given too. Otherwise the ValueError of
  line 69 is raised.
\<close>

theorem init_succeeds_iff_some_auth:
  assumes mode: "mode = MODE_PROD \<or> mode = MODE_DEV"
      and key: "load_auth_key read_file auth_key_path = Inr key"
  shows "(succeeds (init read_file mode rcp auth_key_path kid team cert pw) \<longleftrightarrow>
            (truthy key \<and> truthy kid \<and> truthy team) \<or> (truthy cert \<and> truthy pw)) \<and>
         (\<not> ((truthy key \<and> truthy kid \<and> truthy team) \<or> (truthy cert \<and> truthy pw)) \<longrightarrow>
            init read_file mode rcp auth_key_path kid team cert pw =
              Inl (ValueError ''Either the auth key or the client cert must be provided.'')) \<and>
         (\<forall>s. init read_file mode rcp auth_key_path kid team cert pw = Inr s \<longrightarrow>
            auth_type s = (if truthy key \<and> truthy kid \<and> truthy team then ''jwt'' else ''cert'') \<and>
            auth_token_storage s = None \<and> auth_token_time s = None \<and> client_storage s = None) \<and>
         (truthy key \<longrightarrow> truthy auth_key_path)"
proof -
  from mode obtain url where url: "map_of BASE_URLS mode = Some url"
    by (auto simp: BASE_URLS_def MODE_PROD_def MODE_DEV_def)
  note eq = init_eq [OF url key, of rcp kid team cert pw]
  have a: "succeeds (init read_file mode rcp auth_key_path kid team cert pw) \<longleftrightarrow>
            (truthy key \<and> truthy kid \<and> truthy team) \<or> (truthy cert \<and> truthy pw)"
    by (simp add: eq succeeds_def)
  have b: "\<not> ((truthy key \<and> truthy kid \<and> truthy team) \<or> (truthy cert \<and> truthy pw)) \<longrightarrow>
            init read_file mode rcp auth_key_path kid team cert pw =
              Inl (ValueError ''Either the auth key or the client cert must be provided.'')"
    by (simp add: eq)
  have c: "\<forall>s. init read_file mode rcp auth_key_path kid team cert pw = Inr s \<longrightarrow>
            auth_type s = (if truthy key \<and> truthy kid \<and> truthy team then ''jwt'' else ''cert'') \<and>
            auth_token_storage s = None \<and> auth_token_time s = None \<and> client_storage s = None"
    by (auto simp: eq split: if_splits)
  have d: "truthy key \<longrightarrow> truthy auth_key_path"
    using load_auth_key_truthy [OF key] by blast
  from a b c d show ?thesis by blast
qed

section \<open>The theorems on the concrete world\<close>

lemma example_client:
  "p_client example_state =
     (\<lparr>client_id = 0, client_auth = True, client_cert = None, client_verify = VerifyBool True,
       client_http2 = True, client_timeout = 10, client_limits = (1, 0),
       client_base_url = ''https://api.push.apple.com:443''\<rparr>,
      example_state\<lparr>client_storage :=
          Some \<lparr>client_id = 0, client_auth = True, client_cert = None,
                client_verify = VerifyBool True, client_http2 = True, client_timeout = 10,
                client_limits = (1, 0), client_base_url = ''https://api.push.apple.com:443''\<rparr>,
        created := 1, events := [Created 0]\<rparr>)"
  by (simp add: p_client_def example_state_def Let_def)

lemma example_failures:
  \<open>p_push_failure (example_env c tr) (example_response 503 ''{"reason": "ServiceUnavailable"}'') =
     Raised \<lparr>cls_name = ''ServiceUnavailableException'',
             cls_bases = [''APNSServerException'', ''APNSException'', ''Exception'']\<rparr>
       [(''status_code'', PInt 503), (''apns_id'', PStr ''A1'')]\<close>
  \<open>p_push_failure (example_env c tr) (example_response 400 ''{"reason": "BadDeviceToken"}'') =
     Raised \<lparr>cls_name = ''BadDeviceTokenException'', cls_bases = [''APNSException'', ''Exception'']\<rparr>
       [(''status_code'', PInt 400), (''apns_id'', PStr ''A1'')]\<close>
  by (simp_all add: p_push_failure_def example_env_def example_response_def example_json_loads_def
      p_get_exception_class_def getattr_exceptions_def fstring_def example_reason_classes_def
      issubclass_def Let_def)


lemma bare_exception_is_not_typed:
  \<open>\<not> typed_failure (example_env real tr)
       (example_response 410 ''{"reason": "Unregistered", "timestamp": 1700000000000}'')
       (Raised APNSException [(''status_code'', PInt 410), (''apns_id'', PStr ''A1'')])\<close>
  by (simp add: example_env_def example_response_def example_json_loads_def fstring_def
      getattr_exceptions_def APNSException_def UnregisteredException_def)


theorem push_200_once_witness:
  "transport (example_env real (\<lambda>i. Response (example_response 200 []))) (posts example_state) =
     Response (example_response 200 []) \<and>
   resp_status_code (example_response 200 []) = 200 \<and>
   fst (push (example_env real (\<lambda>i. Response (example_response 200 []))) example_notification
          ''device'' example_state) = Inr () \<and>
   posts (snd (push (example_env real (\<lambda>i. Response (example_response 200 []))) example_notification
          ''device'' example_state)) = 1 \<and>
   steps (snd (push (example_env real (\<lambda>i. Response (example_response 200 []))) example_notification
          ''device'' example_state)) = [Create 0, Post 0]"
proof -
  let ?e = "example_env real (\<lambda>i. Response (example_response 200 []))"
  have h1: "transport ?e (posts example_state) = Response (example_response 200 [])"
    by (simp add: example_env_def)
  have h2: "resp_status_code (example_response 200 []) = 200"
    by (simp add: example_response_def)
  from push_200_once [OF h1 h2, of example_notification "''device''"] h1 h2
  show ?thesis
    by (simp add: example_client steps_def) (simp add: example_state_def)
qed

theorem push_server_failures_three_attempts_witness:
  \<open>transport (example_env real
               (\<lambda>i. Response (example_response 503 ''{"reason": "ServiceUnavailable"}'')))
             (posts example_state) =
           Response (example_response 503 ''{"reason": "ServiceUnavailable"}'') \<and>
   transport (example_env real
               (\<lambda>i. Response (example_response 503 ''{"reason": "ServiceUnavailable"}'')))
             (posts example_state + 1) =
           Response (example_response 503 ''{"reason": "ServiceUnavailable"}'') \<and>
   transport (example_env real
               (\<lambda>i. Response (example_response 503 ''{"reason": "ServiceUnavailable"}'')))
             (posts example_state + 2) =
           Response (example_response 503 ''{"reason": "ServiceUnavailable"}'') \<and>
   resp_status_code (example_response 503 ''{"reason": "ServiceUnavailable"}'') \<noteq> 200 \<and>
   isinstance
     (p_push_failure
        (example_env real (\<lambda>i. Response (example_response 503 ''{"reason": "ServiceUnavailable"}'')))
        (example_response 503 ''{"reason": "ServiceUnavailable"}''))
     ''APNSServerException'' \<and>
   fst (push (example_env real (\<lambda>i. Response (example_response 503 ''{"reason": "ServiceUnavailable"}'')))
          example_notification ''device'' example_state) =
     Inl (Raised \<lparr>cls_name = ''ServiceUnavailableException'',
                  cls_bases = [''APNSServerException'', ''APNSException'', ''Exception'']\<rparr>
            [(''status_code'', PInt 503), (''apns_id'', PStr ''A1'')]) \<and>
   posts (snd (push (example_env real
                      (\<lambda>i. Response (example_response 503 ''{"reason": "ServiceUnavailable"}'')))
                 example_notification ''device'' example_state)) = 3 \<and>
   steps (snd (push (example_env real
                      (\<lambda>i. Response (example_response 503 ''{"reason": "ServiceUnavailable"}'')))
                 example_notification ''device'' example_state)) =
     [Create 0, Post 0, Close 0, Create 1, Post 1, Close 1, Create 2, Post 2, Close 2] \<and>
   client_storage (snd (push (example_env real
                      (\<lambda>i. Response (example_response 503 ''{"reason": "ServiceUnavailable"}'')))
                 example_notification ''device'' example_state)) = None\<close>
proof -
  let ?r = \<open>example_response 503 ''{"reason": "ServiceUnavailable"}''\<close>
  let ?e = "example_env real (\<lambda>i. Response ?r)"
  have t: "\<And>i. transport ?e i = Response ?r"
    by (simp add: example_env_def)
  have n: "resp_status_code ?r \<noteq> 200"
    by (simp add: example_response_def)
  have f: "isinstance (p_push_failure ?e ?r) ''APNSServerException''"
    by (simp add: example_failures issubclass_def)
  from push_server_failures_three_attempts [OF t t t n n n f f f, of example_notification "''device''"]
  show ?thesis using t n f
    by (simp add: example_client example_failures steps_def) (simp add: example_state_def)
qed

theorem push_client_failure_one_attempt_witness:
  \<open>transport (example_env real (\<lambda>i. Response (example_response 400 ''{"reason": "BadDeviceToken"}'')))
     (posts example_state) = Response (example_response 400 ''{"reason": "BadDeviceToken"}'') \<and>
   resp_status_code (example_response 400 ''{"reason": "BadDeviceToken"}'') \<noteq> 200 \<and>
   \<not> isinstance
     (p_push_failure
        (example_env real (\<lambda>i. Response (example_response 400 ''{"reason": "BadDeviceToken"}'')))
        (example_response 400 ''{"reason": "BadDeviceToken"}''))
     ''APNSServerException'' \<and>
   fst (push (example_env real (\<lambda>i. Response (example_response 400 ''{"reason": "BadDeviceToken"}'')))
          example_notification ''device'' example_state) =
     Inl (Raised \<lparr>cls_name = ''BadDeviceTokenException'', cls_bases = [''APNSException'', ''Exception'']\<rparr>
            [(''status_code'', PInt 400), (''apns_id'', PStr ''A1'')]) \<and>
   posts (snd (push (example_env real
                      (\<lambda>i. Response (example_response 400 ''{"reason": "BadDeviceToken"}'')))
                 example_notification ''device'' example_state)) = 1 \<and>
   steps (snd (push (example_env real
                      (\<lambda>i. Response (example_response 400 ''{"reason": "BadDeviceToken"}'')))
                 example_notification ''device'' example_state)) = [Create 0, Post 0] \<and>
   client_storage (snd (push (example_env real
                      (\<lambda>i. Response (example_response 400 ''{"reason": "BadDeviceToken"}'')))
                 example_notification ''device'' example_state)) =
     Some (fst (p_client example_state))\<close>
proof -
  let ?r = \<open>example_response 400 ''{"reason": "BadDeviceToken"}''\<close>
  let ?e = "example_env real (\<lambda>i. Response ?r)"
  have t: "transport ?e (posts example_state) = Response ?r"
    by (simp add: example_env_def)
  have n: "resp_status_code ?r \<noteq> 200"
    by (simp add: example_response_def)
  have f: "\<not> isinstance (p_push_failure ?e ?r) ''APNSServerException''"
    by (simp add: example_failures issubclass_def)
  from push_client_failure_one_attempt [OF t n f, of example_notification "''device''"]
  show ?thesis using t n f
    by (simp add: example_client example_failures steps_def) (simp add: example_state_def)
qed

theorem push_request_error_not_retried_witness:
  \<open>(1::nat) < 3 \<and>
   server_failure
      (example_env real (\<lambda>i. if i = 0 then Response (example_response 503 ''{"reason": "ServiceUnavailable"}'')
                             else RequestError))
      (transport
         (example_env real (\<lambda>i. if i = 0 then Response (example_response 503 ''{"reason": "ServiceUnavailable"}'')
                                else RequestError))
         (posts example_state + 0)) \<and>
   transport
     (example_env real (\<lambda>i. if i = 0 then Response (example_response 503 ''{"reason": "ServiceUnavailable"}'')
                            else RequestError))
     (posts example_state + 1) = RequestError \<and>
   fst (push (example_env real (\<lambda>i. if i = 0 then Response (example_response 503 ''{"reason": "ServiceUnavailable"}'')
                            else RequestError))
          example_notification ''device'' example_state) = Inl (Raised APNSConnectionException []) \<and>
   posts (snd (push (example_env real (\<lambda>i. if i = 0 then Response (example_response 503 ''{"reason": "ServiceUnavailable"}'')
                            else RequestError))
          example_notification ''device'' example_state)) = 2\<close>
proof -
  let ?r = \<open>example_response 503 ''{"reason": "ServiceUnavailable"}''\<close>
  let ?e = "example_env real (\<lambda>i. if i = 0 then Response ?r else RequestError)"
  have k: "(1::nat) < 3" by simp
  have a: "\<forall>i<1. server_failure ?e (transport ?e (posts example_state + i))"
  proof (intro allI impI)
    fix i :: nat
    assume "i < 1"
    then have "transport ?e (posts example_state + i) = Response ?r"
      by (simp add: example_env_def example_state_def)
    moreover have "resp_status_code ?r \<noteq> 200"
      by (simp add: example_response_def)
    moreover have "isinstance (p_push_failure ?e ?r) ''APNSServerException''"
      by (simp add: example_failures issubclass_def)
    ultimately show "server_failure ?e (transport ?e (posts example_state + i))"
      by (simp add: server_failure_def)
  qed
  have b: "transport ?e (posts example_state + 1) = RequestError"
    by (simp add: example_env_def)
  from a have a0: "server_failure ?e (transport ?e (posts example_state + 0))"
    by blast
  from push_request_error_not_retried [OF k a b, of example_notification "''device''"]
  show ?thesis using a0 b
    by simp (simp add: example_state_def)
qed

theorem auth_token_reused_or_minted_witness:
  "auth_token_storage example_cached_state = Some ''first'' \<and>
   auth_token_time example_cached_state = Some 0 \<and>
   clock (example_env (\<lambda>i. 2699) (\<lambda>i. RequestError)) (clock_reads example_cached_state) < 0 + 2700 \<and>
   fst (p_auth_token (example_env (\<lambda>i. 2699) (\<lambda>i. RequestError)) example_cached_state) = ''first'' \<and>
   auth_token_time (snd (p_auth_token (example_env (\<lambda>i. 2699) (\<lambda>i. RequestError)) example_cached_state)) = Some 0 \<and>
   clock (example_env (\<lambda>i. 2700) (\<lambda>i. RequestError)) (clock_reads example_cached_state) - 0 \<ge> 2700 \<and>
   fst (p_auth_token (example_env (\<lambda>i. 2700) (\<lambda>i. RequestError)) example_cached_state) = ''second'' \<and>
   auth_token_storage (snd (p_auth_token (example_env (\<lambda>i. 2700) (\<lambda>i. RequestError)) example_cached_state)) =
     Some ''second'' \<and>
   auth_token_time (snd (p_auth_token (example_env (\<lambda>i. 2700) (\<lambda>i. RequestError)) example_cached_state)) =
     Some 2700 \<and>
   auth_token_storage example_state = None \<and>
   fst (p_auth_token (example_env (\<lambda>i. 5) (\<lambda>i. RequestError)) example_state) = ''first'' \<and>
   auth_token_time (snd (p_auth_token (example_env (\<lambda>i. 5) (\<lambda>i. RequestError)) example_state)) = Some 5"
proof -
  let ?a = "example_env (\<lambda>i. 2699) (\<lambda>i. RequestError)"
  let ?b = "example_env (\<lambda>i. 2700) (\<lambda>i. RequestError)"
  let ?c = "example_env (\<lambda>i. 5) (\<lambda>i. RequestError)"
  have v: "auth_token_storage example_cached_state = Some ''first''"
    and t: "auth_token_time example_cached_state = Some 0"
    and n: "auth_token_storage example_state = None"
    by (simp_all add: example_cached_state_def example_state_def)
  have a: "clock ?a (clock_reads example_cached_state) < 0 + 2700"
    and b: "clock ?b (clock_reads example_cached_state) - 0 \<ge> 2700"
    by (simp_all add: example_env_def)
  have m: "minted_token ?b example_cached_state 2700 = ''second''"
    "clock ?b (Suc (clock_reads example_cached_state)) = 2700"
    "minted_token ?c example_state 5 = ''first''"
    "clock ?c (clock_reads example_state) = 5"
    by (simp_all add: minted_token_def example_env_def)
  from auth_token_reused_or_minted [of example_cached_state ?a] v t a
  have ra: "fst (p_auth_token ?a example_cached_state) = ''first'' \<and>
            auth_token_time (snd (p_auth_token ?a example_cached_state)) = Some 0"
    by blast
  from auth_token_reused_or_minted [of example_cached_state ?b] v t b
  have rb: "fst (p_auth_token ?b example_cached_state) =
              minted_token ?b example_cached_state (clock ?b (Suc (clock_reads example_cached_state))) \<and>
            auth_token_storage (snd (p_auth_token ?b example_cached_state)) =
              Some (minted_token ?b example_cached_state (clock ?b (Suc (clock_reads example_cached_state)))) \<and>
            auth_token_time (snd (p_auth_token ?b example_cached_state)) =
              Some (clock ?b (Suc (clock_reads example_cached_state)))"
    by blast
  from auth_token_reused_or_minted [of example_state ?c] n
  have rc: "fst (p_auth_token ?c example_state) =
              minted_token ?c example_state (clock ?c (clock_reads example_state)) \<and>
            auth_token_time (snd (p_auth_token ?c example_state)) =
              Some (clock ?c (clock_reads example_state))"
    by blast
  from ra rb rc show ?thesis using v t n a b
    by (simp add: m)
qed

text \<open>
  Claim C5 as stated fails: with both mechanisms fully specified the construction succeeds
  (and chooses token authentication), where the claim asks for exactly one of the two.
\<close>

theorem init_both_mechanisms_counterexample:
  "\<not> (succeeds (init example_read_file ''prod'' None (Some ''key.p8'') (Some ''KID'') (Some ''TEAM'')
                  (Some ''cert.pem'') (Some ''secret'')) \<longleftrightarrow>
       spec_exactly_one_auth (Some ''key.p8'') (Some ''KID'') (Some ''TEAM'')
         (Some ''cert.pem'') (Some ''secret''))"
  by (simp add: init_def load_auth_key_def p_get_auth_key_def example_read_file_def BASE_URLS_def
      MODE_PROD_def MODE_DEV_def succeeds_def spec_exactly_one_auth_def token_fields_present_def
      cert_fields_present_def)

theorem init_succeeds_iff_some_auth_witness:
  "(''prod'' = MODE_PROD \<or> ''prod'' = MODE_DEV) \<and>
   load_auth_key example_read_file (Some ''key.p8'') = Inr (Some ''KEY'') \<and>
   init example_read_file ''prod'' None (Some ''key.p8'') (Some ''KID'') (Some ''TEAM'') None None =
     Inr example_state \<and>
   succeeds (init example_read_file ''prod'' None (Some ''key.p8'') (Some ''KID'') (Some ''TEAM'') None None) \<and>
   load_auth_key example_read_file None = Inr None \<and>
   init example_read_file ''prod'' None None (Some ''KID'') (Some ''TEAM'') (Some ''cert.pem'') None =
     Inl (ValueError ''Either the auth key or the client cert must be provided.'')"
proof -
  have m: "''prod'' = MODE_PROD \<or> ''prod'' = MODE_DEV"
    by (simp add: MODE_PROD_def)
  have k: "load_auth_key example_read_file (Some ''key.p8'') = Inr (Some ''KEY'')"
    and k0: "load_auth_key example_read_file None = Inr None"
    by (simp_all add: load_auth_key_def p_get_auth_key_def example_read_file_def)
  have i: "init example_read_file ''prod'' None (Some ''key.p8'') (Some ''KID'') (Some ''TEAM'') None None =
     Inr example_state"
    by (simp add: init_def k BASE_URLS_def MODE_PROD_def MODE_DEV_def example_state_def)
  from init_succeeds_iff_some_auth [OF m k, of None "Some ''KID''" "Some ''TEAM''" None None]
    init_succeeds_iff_some_auth [OF m k0, of None "Some ''KID''" "Some ''TEAM''" "Some ''cert.pem''" None]
  show ?thesis using m k k0 i by simp
qed

theorem reason_determines_exception_witness:
  \<open>transport (example_env real (\<lambda>i. Response (example_response 410
       ''{"reason": "Unregistered", "timestamp": 1700000000000}''))) (posts example_state) =
     Response (example_response 410 ''{"reason": "Unregistered", "timestamp": 1700000000000}'') \<and>
   resp_status_code (example_response 410 ''{"reason": "Unregistered", "timestamp": 1700000000000}'') \<noteq> 200 \<and>
   json_loads (example_env real (\<lambda>i. Response (example_response 410
       ''{"reason": "Unregistered", "timestamp": 1700000000000}'')))
     (resp_text (example_response 410 ''{"reason": "Unregistered", "timestamp": 1700000000000}'')) =
     Some (PDict [(''reason'', PStr ''Unregistered''), (''timestamp'', PInt 1700000000000)]) \<and>
   map_of [(''reason'', PStr ''Unregistered''), (''timestamp'', PInt 1700000000000)] ''reason'' =
     Some (PStr ''Unregistered'') \<and>
   map_of [(''reason'', PStr ''Unregistered''), (''timestamp'', PInt 1700000000000)] ''timestamp'' =
     Some (PInt 1700000000000) \<and>
   fst (p_push (example_env real (\<lambda>i. Response (example_response 410
       ''{"reason": "Unregistered", "timestamp": 1700000000000}''))) [] ''{}'' ''device'' example_state) =
     Inl (Raised UnregisteredException
            [(''status_code'', PInt 410), (''apns_id'', PStr ''A1''),
             (''timestamp'', PInt 1700000000000)]) \<and>
   transport (example_env real (\<lambda>i. Response (example_response 400 ''{"reason": "Mystery"}'')))
     (posts example_state) = Response (example_response 400 ''{"reason": "Mystery"}'') \<and>
   json_loads (example_env real (\<lambda>i. Response (example_response 400 ''{"reason": "Mystery"}'')))
     (resp_text (example_response 400 ''{"reason": "Mystery"}'')) =
     Some (PDict [(''reason'', PStr ''Mystery'')]) \<and>
   getattr_exceptions (example_env real (\<lambda>i. Response (example_response 400 ''{"reason": "Mystery"}'')))
     (''Mystery'' @ ''Exception'') = None \<and>
   fst (push (example_env real (\<lambda>i. Response (example_response 400 ''{"reason": "Mystery"}'')))
          example_notification ''device'' example_state) =
     Inl (NotImplementedError ''Reason not implemented: Mystery'') \<and>
   posts (snd (push (example_env real (\<lambda>i. Response (example_response 400 ''{"reason": "Mystery"}'')))
          example_notification ''device'' example_state)) = 1\<close>
proof -
  let ?r = \<open>example_response 410 ''{"reason": "Unregistered", "timestamp": 1700000000000}''\<close>
  let ?e = "example_env real (\<lambda>i. Response ?r)"
  let ?kvs = "[(''reason'', PStr ''Unregistered''), (''timestamp'', PInt 1700000000000)]"
  let ?r' = \<open>example_response 400 ''{"reason": "Mystery"}''\<close>
  let ?e' = "example_env real (\<lambda>i. Response ?r')"
  let ?kvs' = "[(''reason'', PStr ''Mystery'')]"
  have t: "transport ?e (posts example_state) = Response ?r"
    and t': "transport ?e' (posts example_state) = Response ?r'"
    by (simp_all add: example_env_def)
  have n: "resp_status_code ?r \<noteq> 200" and n': "resp_status_code ?r' \<noteq> 200"
    by (simp_all add: example_response_def)
  have b: "json_loads ?e (resp_text ?r) = Some (PDict ?kvs)"
    and b': "json_loads ?e' (resp_text ?r') = Some (PDict ?kvs')"
    by (simp_all add: example_env_def example_response_def example_json_loads_def)
  have k: "map_of ?kvs ''reason'' = Some (PStr ''Unregistered'')"
    and k': "map_of ?kvs' ''reason'' = Some (PStr ''Mystery'')"
    and ts: "map_of ?kvs ''timestamp'' = Some (PInt 1700000000000)"
    by simp_all
  have g: "getattr_exceptions ?e' (''Mystery'' @ ''Exception'') = None"
    by (simp add: getattr_exceptions_def example_env_def example_reason_classes_def)
  from reason_determines_exception [OF t n b k, of "[]" "''{}''" "''device''"] ts
  have u: "fst (p_push ?e [] ''{}'' ''device'' example_state) =
     Inl (Raised UnregisteredException
            [(''status_code'', PInt (resp_status_code ?r)), (''apns_id'', apns_id_value ?r),
             (''timestamp'', PInt 1700000000000)])"
    by blast
  from reason_determines_exception [OF t' n' b' k', of "[]" "''{}''" "''device''" example_notification] g
  have m: "fst (push ?e' example_notification ''device'' example_state) =
             Inl (NotImplementedError (''Reason not implemented: '' @ ''Mystery'')) \<and>
           posts (snd (push ?e' example_notification ''device'' example_state)) = Suc (posts example_state)"
    by blast
  have v: "resp_status_code ?r = 410" "apns_id_value ?r = PStr ''A1''" "posts example_state = 0"
    by (simp_all add: example_response_def apns_id_value_def example_state_def)
  from u m show ?thesis using t t' n b b' k ts g
    by (simp add: v)
qed



end
